theory Spec2Isabelle
  imports Complex_Main "HOL-Library.Multiset" "HOL-Library.AList"
    "HOL-Library.Char_ord" "HOL-Library.List_Lexorder"
begin

section \<open>Decimal amounts and calendar dates\<close>

text \<open>
  Python's \<^verbatim>\<open>Decimal\<close> is embedded by its value, an exact rational, and its
  arithmetic as the exact one. The default decimal context rounds a result to 28
  significant digits; amounts are \<^verbatim>\<open>Numeric(12, 2)\<close> columns, of 12 digits, so sums,
  differences and products of amounts by a count are not rounded, and a quotient is
  changed by less than one part in \<open>10^27\<close>.
\<close>

type_synonym decimal = rat


text \<open>\<^verbatim>\<open>datetime.date\<close>: year, month and day of the proleptic Gregorian calendar.\<close>

record date =
  year :: int
  month :: int
  day :: int








section \<open>Installment calculation\<close>

datatype payment_status = PENDENTE | PAGO | ATRASADO


text \<open>
  One dictionary of the returned list. The string \<^verbatim>\<open>"pendente"\<close> is the value of
  \<^verbatim>\<open>PaymentStatus.PENDENTE\<close>.
\<close>

record parcela =
  numero_parcela :: int
  total_parcelas :: int
  valor_parcela :: decimal
  data_vencimento :: date
  status_pagamento :: payment_status



section \<open>Stored records\<close>

datatype transaction_type = ENTRADA | SAIDA_DEBITO | SAIDA_CREDITO

text \<open>The columns of \<^verbatim>\<open>Transaction\<close>; \<open>tx_id\<close> is its primary key \<^verbatim>\<open>id\<close>.\<close>

record transaction =
  tx_id :: int
  user_id :: int
  valor_total :: decimal
  descricao :: string
  categoria :: string
  tipo :: transaction_type
  data_compra :: date
  num_parcelas :: int
  notas :: "string option"

text \<open>
  The columns of \<^verbatim>\<open>Installment\<close>: the fields of a calculated installment, the primary
  key \<^verbatim>\<open>id\<close> (\<open>inst_id\<close>) and the foreign key to the transaction.
\<close>

record installment = parcela +
  inst_id :: int
  transacao_id :: int

text \<open>The columns of \<^verbatim>\<open>SavingsGoal\<close>; \<open>goal_id\<close> and \<open>goal_user_id\<close> are its
  \<^verbatim>\<open>id\<close> and \<^verbatim>\<open>user_id\<close>.\<close>

record savings_goal =
  goal_id :: int
  goal_user_id :: int
  nome_objetivo :: string
  valor_meta :: decimal
  valor_atual :: decimal
  data_limite :: "date option"
  is_active :: bool

text \<open>The tables a session reads.\<close>

record database =
  transactions :: "transaction list"
  installments :: "installment list"
  savings_goals :: "savings_goal list"

section \<open>Dashboard summary\<close>

text \<open>
  The queries of \<^verbatim>\<open>get_dashboard_summary\<close>. \<^verbatim>\<open>coalesce(sum(...), 0)\<close> over no row is 0,
  as the sum of the empty list is. The path operation validates \<^verbatim>\<open>mes\<close> (1 to 12) and
  \<^verbatim>\<open>ano\<close> (from 2000) before its body runs; the body is what is embedded here.
\<close>

definition query_total_entradas :: "database \<Rightarrow> int \<Rightarrow> int \<Rightarrow> int \<Rightarrow> decimal" where
  "query_total_entradas db uid mes_q ano_q =
     sum_list (map valor_total
       (filter (\<lambda>t. user_id t = uid \<and> tipo t = ENTRADA \<and>
                    month (data_compra t) = mes_q \<and> year (data_compra t) = ano_q)
          (transactions db)))"

definition query_total_debito :: "database \<Rightarrow> int \<Rightarrow> int \<Rightarrow> int \<Rightarrow> decimal" where
  "query_total_debito db uid mes_q ano_q =
     sum_list (map valor_total
       (filter (\<lambda>t. user_id t = uid \<and> tipo t = SAIDA_DEBITO \<and>
                    month (data_compra t) = mes_q \<and> year (data_compra t) = ano_q)
          (transactions db)))"

text \<open>
  The rows of \<^verbatim>\<open>Installment\<close> joined with \<^verbatim>\<open>Transaction\<close> on the foreign key, kept when
  the transaction is the user's and the installment falls due in the month and year.
\<close>

definition joined_rows ::
  "database \<Rightarrow> int \<Rightarrow> int \<Rightarrow> int \<Rightarrow> (transaction \<times> installment) list" where
  "joined_rows db uid mes_q ano_q =
     concat (map (\<lambda>i.
       map (\<lambda>t. (t, i))
         (filter (\<lambda>t. transacao_id i = tx_id t \<and> user_id t = uid \<and>
                      month (data_vencimento i) = mes_q \<and> year (data_vencimento i) = ano_q)
            (transactions db)))
       (installments db))"

definition query_total_parcelas :: "database \<Rightarrow> int \<Rightarrow> int \<Rightarrow> int \<Rightarrow> decimal" where
  "query_total_parcelas db uid mes_q ano_q =
     sum_list (map (\<lambda>r. valor_parcela (snd r)) (joined_rows db uid mes_q ano_q))"

definition query_total_guardado :: "database \<Rightarrow> int \<Rightarrow> decimal" where
  "query_total_guardado db uid =
     sum_list (map valor_atual
       (filter (\<lambda>g. goal_user_id g = uid \<and> is_active g = True) (savings_goals db)))"

record dashboard_summary =
  mes :: int
  ano :: int
  total_entradas :: decimal
  total_saidas :: decimal
  total_guardado :: decimal
  saldo_disponivel :: decimal

definition get_dashboard_summary :: "database \<Rightarrow> int \<Rightarrow> int \<Rightarrow> int \<Rightarrow> dashboard_summary" where
  "get_dashboard_summary db current_user mes_q ano_q =
     (let entradas = query_total_entradas db current_user mes_q ano_q;
          total_debito = query_total_debito db current_user mes_q ano_q;
          total_parcelas_mes = query_total_parcelas db current_user mes_q ano_q;
          saidas = total_debito + total_parcelas_mes;
          guardado = query_total_guardado db current_user;
          saldo = entradas - saidas
      in \<lparr>mes = mes_q, ano = ano_q, total_entradas = entradas, total_saidas = saidas,
          total_guardado = guardado, saldo_disponivel = saldo\<rparr>)"

subsection \<open>The computed field of the summary\<close>










section \<open>Expenses by category\<close>

text \<open>
  \<^verbatim>\<open>GROUP BY categoria\<close> with \<^verbatim>\<open>sum\<close>: one row for each category, holding the sum of
  its rows. SQL leaves the order of the groups open; here they come in the order of
  their first row, and the properties below are stated for any order.
\<close>

fun group_by_sum :: "(string \<times> decimal) list \<Rightarrow> (string \<times> decimal) list" where
  "group_by_sum [] = []"
| "group_by_sum ((c, v) # rows) =
     (c, v + sum_list (map snd (filter (\<lambda>r. fst r = c) rows))) #
       group_by_sum (filter (\<lambda>r. fst r \<noteq> c) rows)"

definition debit_by_category :: "database \<Rightarrow> int \<Rightarrow> int \<Rightarrow> int \<Rightarrow> (string \<times> decimal) list" where
  "debit_by_category db uid mes_q ano_q =
     group_by_sum (map (\<lambda>t. (categoria t, valor_total t))
       (filter (\<lambda>t. user_id t = uid \<and> tipo t = SAIDA_DEBITO \<and>
                    month (data_compra t) = mes_q \<and> year (data_compra t) = ano_q)
          (transactions db)))"

definition credit_by_category :: "database \<Rightarrow> int \<Rightarrow> int \<Rightarrow> int \<Rightarrow> (string \<times> decimal) list" where
  "credit_by_category db uid mes_q ano_q =
     group_by_sum (map (\<lambda>r. (categoria (fst r), valor_parcela (snd r)))
       (joined_rows db uid mes_q ano_q))"

text \<open>
  A Python dictionary keeps its keys in the order of their first insertion, and an
  assignment to a key that is there keeps its place: an association list with
  \<^const>\<open>AList.update\<close>. \<open>dict_get\<close> is \<^verbatim>\<open>d.get(k, default)\<close>.
\<close>

definition dict_get :: "(string \<times> decimal) list \<Rightarrow> string \<Rightarrow> decimal \<Rightarrow> decimal" where
  "dict_get d k dflt = (case map_of d k of None \<Rightarrow> dflt | Some v \<Rightarrow> v)"

text \<open>One of the two loops \<^verbatim>\<open>for cat, total in ...: category_totals[cat] = ...\<close>.
  The response's fields \<^verbatim>\<open>mes\<close>, \<^verbatim>\<open>ano\<close> and \<^verbatim>\<open>total\<close> are \<open>dcs_mes\<close>, \<open>dcs_ano\<close> and
  \<open>dcs_total\<close> below.\<close>

fun add_rows :: "(string \<times> decimal) list \<Rightarrow> (string \<times> decimal) list \<Rightarrow> (string \<times> decimal) list" where
  "add_rows category_totals [] = category_totals"
| "add_rows category_totals ((cat, tot) # rows) =
     add_rows (AList.update cat (dict_get category_totals cat 0 + tot) category_totals) rows"

text \<open>
  \<^verbatim>\<open>sorted(items, key=lambda x: x[1], reverse=True)\<close>: a stable sort by decreasing
  amount; items of equal amount keep their order.
\<close>

definition sorted_by_valor_reverse :: "(string \<times> decimal) list \<Rightarrow> (string \<times> decimal) list" where
  "sorted_by_valor_reverse items = sort_key (\<lambda>x. - snd x) items"

text \<open>
  The fields of \<^verbatim>\<open>CategorySummary\<close> that are decimals and strings.  Its \<^verbatim>\<open>percentual\<close>
  is a binary floating-point number, computed from the amount and the grand total; no
  property below reads it.
\<close>

record category_summary =
  cs_categoria :: string
  cs_valor_total :: decimal

record dashboard_category_summary =
  dcs_mes :: int
  dcs_ano :: int
  dcs_total :: decimal
  categorias :: "category_summary list"

text \<open>The body of \<^verbatim>\<open>get_expenses_by_category\<close> after its two queries.\<close>

definition expenses_of_rows ::
  "(string \<times> decimal) list \<Rightarrow> (string \<times> decimal) list \<Rightarrow> int \<Rightarrow> int \<Rightarrow> dashboard_category_summary" where
  "expenses_of_rows debit_rows credit_rows mes_q ano_q =
     (let category_totals = add_rows (add_rows [] debit_rows) credit_rows;
          grand_total = (if sum_list (map snd category_totals) = 0 then 1
                         else sum_list (map snd category_totals))
      in \<lparr>dcs_mes = mes_q, dcs_ano = ano_q,
          dcs_total = (if grand_total \<noteq> 1 then grand_total else 0),
          categorias = map (\<lambda>x. \<lparr>cs_categoria = fst x, cs_valor_total = snd x\<rparr>)
                         (sorted_by_valor_reverse category_totals)\<rparr>)"

definition get_expenses_by_category ::
  "database \<Rightarrow> int \<Rightarrow> int \<Rightarrow> int \<Rightarrow> dashboard_category_summary" where
  "get_expenses_by_category db current_user mes_q ano_q =
     expenses_of_rows (debit_by_category db current_user mes_q ano_q)
       (credit_by_category db current_user mes_q ano_q) mes_q ano_q"

section \<open>Properties of the installment calculation\<close>



















section \<open>Properties of the summary and of the expenses by category\<close>

lemma sum_list_filter_split:
  "sum_list (map f (filter P xs)) + sum_list (map f (filter (\<lambda>x. \<not> P x) xs)) =
     (sum_list (map f xs) :: rat)"
  by (induction xs) auto

lemma group_by_sum_total: "sum_list (map snd (group_by_sum rows)) = sum_list (map snd rows)"
proof (induction rows rule: group_by_sum.induct)
  case 1
  show ?case by simp
next
  case (2 c v rows)
  have "sum_list (map snd (filter (\<lambda>r. fst r = c) rows)) +
        sum_list (map snd (filter (\<lambda>r. \<not> fst r = c) rows)) = sum_list (map snd rows)"
    by (rule sum_list_filter_split)
  with 2 show ?case by simp
qed

lemma update_sum:
  "sum_list (map snd (AList.update k (dict_get d k 0 + v) d)) = sum_list (map snd d) + v"
  by (induction d) (auto simp: dict_get_def)

lemma add_rows_sum:
  "sum_list (map snd (add_rows d rows)) = sum_list (map snd d) + sum_list (map snd rows)"
  by (induction d rows rule: add_rows.induct) (simp_all add: update_sum)

lemma sum_list_perm:
  assumes "mset xs = mset ys"
  shows "sum_list (map snd xs) = (sum_list (map snd ys) :: rat)"
proof -
  have "sum_mset (image_mset snd (mset xs)) = sum_mset (image_mset snd (mset ys))"
    using assms by simp
  then show ?thesis by (simp only: mset_map [symmetric] sum_mset_sum_list)
qed

lemma sorted_by_valor_reverse_sum:
  "sum_list (map snd (sorted_by_valor_reverse xs)) = sum_list (map snd xs)"
  by (rule sum_list_perm) (simp add: sorted_by_valor_reverse_def)

lemma categorias_sum:
  "sum_list (map cs_valor_total (categorias (expenses_of_rows dr cr m y))) =
     sum_list (map snd dr) + sum_list (map snd cr)"
proof -
  have "map cs_valor_total (categorias (expenses_of_rows dr cr m y)) =
        map snd (sorted_by_valor_reverse (add_rows (add_rows [] dr) cr))"
    by (simp add: expenses_of_rows_def Let_def comp_def)
  then show ?thesis
    by (simp add: sorted_by_valor_reverse_sum add_rows_sum)
qed

lemma total_saidas_eq:
  "total_saidas (get_dashboard_summary db u m y) =
     query_total_debito db u m y + query_total_parcelas db u m y"
  by (simp add: get_dashboard_summary_def Let_def)

lemma debit_by_category_sum:
  "sum_list (map snd (debit_by_category db u m y)) = query_total_debito db u m y"
  by (simp add: debit_by_category_def query_total_debito_def group_by_sum_total comp_def)

lemma credit_by_category_sum:
  "sum_list (map snd (credit_by_category db u m y)) = query_total_parcelas db u m y"
  by (simp add: credit_by_category_def query_total_parcelas_def group_by_sum_total comp_def)

lemma query_total_parcelas_alt:
  "query_total_parcelas db u m y =
     sum_list (map (\<lambda>i. valor_parcela i *
        of_nat (length (filter (\<lambda>t. transacao_id i = tx_id t \<and> user_id t = u \<and>
                      month (data_vencimento i) = m \<and> year (data_vencimento i) = y)
            (transactions db)))) (installments db))"
proof -
  have "sum_list (map (\<lambda>r. valor_parcela (snd r)) (concat (map (\<lambda>i. map (\<lambda>t. (t, i)) (f i)) is))) =
        sum_list (map (\<lambda>i. valor_parcela i * of_nat (length (f i))) is)"
    for f :: "installment \<Rightarrow> transaction list" and "is"
    by (induction "is") (simp_all add: comp_def sum_list_triv)
  then show ?thesis
    by (simp add: query_total_parcelas_def joined_rows_def)
qed

lemma sum_list_indicator:
  "sum_list (map (\<lambda>i. f i * (if P i then 1 else 0)) xs) = (sum_list (map f (filter P xs)) :: rat)"
  by (induction xs) simp_all

lemma total_saidas_add_credit:
  assumes "tipo t = SAIDA_CREDITO" "user_id t = u"
    and "tx_id t \<notin> tx_id ` set (transactions db)"
    and "\<forall>i \<in> set (installments db). transacao_id i \<noteq> tx_id t"
    and "\<forall>i \<in> set ps. transacao_id i = tx_id t"
  shows "total_saidas (get_dashboard_summary
            (db\<lparr>transactions := transactions db @ [t], installments := installments db @ ps\<rparr>) u m y) =
         total_saidas (get_dashboard_summary db u m y) +
         sum_list (map valor_parcela
           (filter (\<lambda>i. month (data_vencimento i) = m \<and> year (data_vencimento i) = y) ps))"
proof -
  let ?db = "db\<lparr>transactions := transactions db @ [t], installments := installments db @ ps\<rparr>"
  let ?c = "\<lambda>i t. transacao_id i = tx_id t \<and> user_id t = u \<and>
                      month (data_vencimento i) = m \<and> year (data_vencimento i) = y"
  have deb: "query_total_debito ?db u m y = query_total_debito db u m y"
    using assms(1) by (simp add: query_total_debito_def)
  have old: "map (\<lambda>i. valor_parcela i * of_nat (length (filter (?c i) (transactions db @ [t]))))
               (installments db) =
             map (\<lambda>i. valor_parcela i * of_nat (length (filter (?c i) (transactions db))))
               (installments db)"
    using assms(4) by (intro map_cong) auto
  have none: "filter (?c i) (transactions db) = []" if "i \<in> set ps" for i
    using that assms(3,5) by (auto simp: filter_empty_conv)
  have new: "map (\<lambda>i. valor_parcela i * of_nat (length (filter (?c i) (transactions db @ [t])))) ps =
             map (\<lambda>i. valor_parcela i *
               (if month (data_vencimento i) = m \<and> year (data_vencimento i) = y then 1 else 0)) ps"
    using assms(2,5) none by (intro map_cong) auto
  have "query_total_parcelas ?db u m y = query_total_parcelas db u m y +
      sum_list (map valor_parcela
           (filter (\<lambda>i. month (data_vencimento i) = m \<and> year (data_vencimento i) = y) ps))"
    unfolding query_total_parcelas_alt
    by (simp add: old new sum_list_indicator del: filter_append)
  with deb show ?thesis
    by (simp add: total_saidas_eq)
qed

text \<open>
  C5. The expense total of a month is the debit total plus the installment total of that
  month. A credit transaction of the user, added to the tables with its installments,
  raises the expense total of a month and year by the amounts of those of its
  installments that fall due in that month and year, whatever its purchase date is: a
  purchase in January with one installment due in February adds nothing to January and
  the amount of the installment to February.
\<close>

theorem installment_attribution:
  "total_saidas (get_dashboard_summary db u m y) =
     query_total_debito db u m y + query_total_parcelas db u m y \<and>
   (tipo t = SAIDA_CREDITO \<and> user_id t = u \<and>
    tx_id t \<notin> tx_id ` set (transactions db) \<and>
    (\<forall>i \<in> set (installments db). transacao_id i \<noteq> tx_id t) \<and>
    (\<forall>i \<in> set ps. transacao_id i = tx_id t) \<longrightarrow>
    total_saidas (get_dashboard_summary
        (db\<lparr>transactions := transactions db @ [t], installments := installments db @ ps\<rparr>) u m y) =
      total_saidas (get_dashboard_summary db u m y) +
      sum_list (map valor_parcela
        (filter (\<lambda>i. month (data_vencimento i) = m \<and> year (data_vencimento i) = y) ps)))"
  using total_saidas_eq [of db u m y] total_saidas_add_credit [of t u db ps m y]
  by blast

theorem installment_attribution_witness:
  "(tipo (\<lparr>tx_id = 1, user_id = 7, valor_total = 50, descricao = ''TV'', categoria = ''Casa'', tipo = SAIDA_CREDITO, data_compra = \<lparr>year = 2024, month = 1, day = 20\<rparr>, num_parcelas = 1, notas = None\<rparr>) = SAIDA_CREDITO \<and> user_id (\<lparr>tx_id = 1, user_id = 7, valor_total = 50, descricao = ''TV'', categoria = ''Casa'', tipo = SAIDA_CREDITO, data_compra = \<lparr>year = 2024, month = 1, day = 20\<rparr>, num_parcelas = 1, notas = None\<rparr>) = 7 \<and>
    transactions (\<lparr>transactions = [], installments = [], savings_goals = []\<rparr>) = [] \<and> installments (\<lparr>transactions = [], installments = [], savings_goals = []\<rparr>) = [] \<and>
    transacao_id (\<lparr>numero_parcela = 1, total_parcelas = 1, valor_parcela = 50, data_vencimento = \<lparr>year = 2024, month = 2, day = 20\<rparr>, status_pagamento = PENDENTE, inst_id = 1, transacao_id = 1\<rparr>) = tx_id (\<lparr>tx_id = 1, user_id = 7, valor_total = 50, descricao = ''TV'', categoria = ''Casa'', tipo = SAIDA_CREDITO, data_compra = \<lparr>year = 2024, month = 1, day = 20\<rparr>, num_parcelas = 1, notas = None\<rparr>)) \<and>
   total_saidas (get_dashboard_summary
     \<lparr>transactions = [\<lparr>tx_id = 1, user_id = 7, valor_total = 50, descricao = ''TV'', categoria = ''Casa'', tipo = SAIDA_CREDITO, data_compra = \<lparr>year = 2024, month = 1, day = 20\<rparr>, num_parcelas = 1, notas = None\<rparr>], installments = [\<lparr>numero_parcela = 1, total_parcelas = 1, valor_parcela = 50, data_vencimento = \<lparr>year = 2024, month = 2, day = 20\<rparr>, status_pagamento = PENDENTE, inst_id = 1, transacao_id = 1\<rparr>], savings_goals = []\<rparr> 7 1 2024) = 0 \<and>
   total_saidas (get_dashboard_summary
     \<lparr>transactions = [\<lparr>tx_id = 1, user_id = 7, valor_total = 50, descricao = ''TV'', categoria = ''Casa'', tipo = SAIDA_CREDITO, data_compra = \<lparr>year = 2024, month = 1, day = 20\<rparr>, num_parcelas = 1, notas = None\<rparr>], installments = [\<lparr>numero_parcela = 1, total_parcelas = 1, valor_parcela = 50, data_vencimento = \<lparr>year = 2024, month = 2, day = 20\<rparr>, status_pagamento = PENDENTE, inst_id = 1, transacao_id = 1\<rparr>], savings_goals = []\<rparr> 7 2 2024) = 50"
proof -
  have e: "total_saidas (get_dashboard_summary (\<lparr>transactions = [], installments = [], savings_goals = []\<rparr>) 7 m 2024) = 0" for m
    by (simp add: get_dashboard_summary_def Let_def query_total_debito_def
        query_total_parcelas_def joined_rows_def)
  show ?thesis
    using installment_attribution [of "\<lparr>transactions = [], installments = [], savings_goals = []\<rparr>" 7 1 2024 "\<lparr>tx_id = 1, user_id = 7, valor_total = 50, descricao = ''TV'', categoria = ''Casa'', tipo = SAIDA_CREDITO, data_compra = \<lparr>year = 2024, month = 1, day = 20\<rparr>, num_parcelas = 1, notas = None\<rparr>" "[\<lparr>numero_parcela = 1, total_parcelas = 1, valor_parcela = 50, data_vencimento = \<lparr>year = 2024, month = 2, day = 20\<rparr>, status_pagamento = PENDENTE, inst_id = 1, transacao_id = 1\<rparr>]"]
      installment_attribution [of "\<lparr>transactions = [], installments = [], savings_goals = []\<rparr>" 7 2 2024 "\<lparr>tx_id = 1, user_id = 7, valor_total = 50, descricao = ''TV'', categoria = ''Casa'', tipo = SAIDA_CREDITO, data_compra = \<lparr>year = 2024, month = 1, day = 20\<rparr>, num_parcelas = 1, notas = None\<rparr>" "[\<lparr>numero_parcela = 1, total_parcelas = 1, valor_parcela = 50, data_vencimento = \<lparr>year = 2024, month = 2, day = 20\<rparr>, status_pagamento = PENDENTE, inst_id = 1, transacao_id = 1\<rparr>]"]
    by (simp add: e)
qed

text \<open>
  C6. The amounts of the categories of the breakdown add up to the expense total of the
  summary of the same user, month and year, in whatever order the database returns
  the rows of the two grouped queries.
\<close>

theorem breakdown_completeness:
  "(mset dr = mset (debit_by_category db u m y) \<and>
    mset cr = mset (credit_by_category db u m y) \<longrightarrow>
     sum_list (map cs_valor_total (categorias (expenses_of_rows dr cr m y))) =
       total_saidas (get_dashboard_summary db u m y)) \<and>
   sum_list (map cs_valor_total (categorias (get_expenses_by_category db u m y))) =
     total_saidas (get_dashboard_summary db u m y)"
proof (intro conjI impI)
  assume a: "mset dr = mset (debit_by_category db u m y) \<and>
    mset cr = mset (credit_by_category db u m y)"
  have "sum_list (map snd dr) = query_total_debito db u m y"
    using a sum_list_perm [of dr "debit_by_category db u m y"]
    by (simp add: debit_by_category_sum)
  moreover have "sum_list (map snd cr) = query_total_parcelas db u m y"
    using a sum_list_perm [of cr "credit_by_category db u m y"]
    by (simp add: credit_by_category_sum)
  ultimately show "sum_list (map cs_valor_total (categorias (expenses_of_rows dr cr m y))) =
       total_saidas (get_dashboard_summary db u m y)"
    by (simp add: categorias_sum total_saidas_eq)
next
  show "sum_list (map cs_valor_total (categorias (get_expenses_by_category db u m y))) =
     total_saidas (get_dashboard_summary db u m y)"
    by (simp add: get_expenses_by_category_def categorias_sum total_saidas_eq
        debit_by_category_sum credit_by_category_sum)
qed

text \<open>
  C8. In every summary the available balance is the income total minus the expense
  total.
\<close>

theorem balance_identity:
  "saldo_disponivel (get_dashboard_summary db u m y) =
     total_entradas (get_dashboard_summary db u m y) -
     total_saidas (get_dashboard_summary db u m y)"
  by (simp add: get_dashboard_summary_def Let_def)

text \<open>
  C10. When the amounts of the categories add up to exactly 1, the reported total is 0
  although there are categories; for every other sum the reported total is the sum.
\<close>

theorem total_sentinel:
  "(sum_list (map cs_valor_total (categorias (expenses_of_rows dr cr m y))) = 1 \<longrightarrow>
      dcs_total (expenses_of_rows dr cr m y) = 0 \<and>
      categorias (expenses_of_rows dr cr m y) \<noteq> []) \<and>
   (sum_list (map cs_valor_total (categorias (expenses_of_rows dr cr m y))) \<noteq> 1 \<longrightarrow>
      dcs_total (expenses_of_rows dr cr m y) =
        sum_list (map cs_valor_total (categorias (expenses_of_rows dr cr m y))))"
proof -
  have t: "dcs_total (expenses_of_rows dr cr m y) =
     (if sum_list (map snd dr) + sum_list (map snd cr) = 1 then 0
      else sum_list (map snd dr) + sum_list (map snd cr))"
    by (simp add: expenses_of_rows_def Let_def add_rows_sum)
  have "categorias (expenses_of_rows dr cr m y) \<noteq> []"
    if "sum_list (map cs_valor_total (categorias (expenses_of_rows dr cr m y))) = 1"
    using that by auto
  then show ?thesis
    by (simp add: t categorias_sum)
qed

theorem total_sentinel_witness:
  "sum_list (map cs_valor_total (categorias (expenses_of_rows [(''A'', 1)] [] 1 2024))) = 1 \<and>
   dcs_total (expenses_of_rows [(''A'', 1)] [] 1 2024) = 0 \<and>
   categorias (expenses_of_rows [(''A'', 1)] [] 1 2024) \<noteq> [] \<and>
   sum_list (map cs_valor_total (categorias (expenses_of_rows [(''A'', 2)] [] 1 2024))) \<noteq> 1 \<and>
   dcs_total (expenses_of_rows [(''A'', 2)] [] 1 2024) = 2"
  using total_sentinel [of "[(''A'', 1)]" "[]" 1 2024]
    total_sentinel [of "[(''A'', 2)]" "[]" 1 2024]
  by (simp add: categorias_sum)

theorem breakdown_completeness_witness:
  "mset [(''Z'', 10)] = mset (debit_by_category (\<lparr>transactions = [\<lparr>tx_id = 1, user_id = 7, valor_total = 10, descricao = ''Z1'', categoria = ''Z'', tipo = SAIDA_DEBITO, data_compra = \<lparr>year = 2024, month = 1, day = 15\<rparr>, num_parcelas = 1, notas = None\<rparr>, \<lparr>tx_id = 2, user_id = 7, valor_total = 10, descricao = ''A1'', categoria = ''A'', tipo = SAIDA_CREDITO, data_compra = \<lparr>year = 2023, month = 12, day = 10\<rparr>, num_parcelas = 1, notas = None\<rparr>], installments = [\<lparr>numero_parcela = 1, total_parcelas = 1, valor_parcela = 10, data_vencimento = \<lparr>year = 2024, month = 1, day = 10\<rparr>, status_pagamento = PENDENTE, inst_id = 1, transacao_id = 2\<rparr>], savings_goals = []\<rparr>) 7 1 2024) \<and>
   mset [(''A'', 10)] = mset (credit_by_category (\<lparr>transactions = [\<lparr>tx_id = 1, user_id = 7, valor_total = 10, descricao = ''Z1'', categoria = ''Z'', tipo = SAIDA_DEBITO, data_compra = \<lparr>year = 2024, month = 1, day = 15\<rparr>, num_parcelas = 1, notas = None\<rparr>, \<lparr>tx_id = 2, user_id = 7, valor_total = 10, descricao = ''A1'', categoria = ''A'', tipo = SAIDA_CREDITO, data_compra = \<lparr>year = 2023, month = 12, day = 10\<rparr>, num_parcelas = 1, notas = None\<rparr>], installments = [\<lparr>numero_parcela = 1, total_parcelas = 1, valor_parcela = 10, data_vencimento = \<lparr>year = 2024, month = 1, day = 10\<rparr>, status_pagamento = PENDENTE, inst_id = 1, transacao_id = 2\<rparr>], savings_goals = []\<rparr>) 7 1 2024) \<and>
   sum_list (map cs_valor_total
     (categorias (expenses_of_rows [(''Z'', 10)] [(''A'', 10)] 1 2024))) = 20 \<and>
   total_saidas (get_dashboard_summary (\<lparr>transactions = [\<lparr>tx_id = 1, user_id = 7, valor_total = 10, descricao = ''Z1'', categoria = ''Z'', tipo = SAIDA_DEBITO, data_compra = \<lparr>year = 2024, month = 1, day = 15\<rparr>, num_parcelas = 1, notas = None\<rparr>, \<lparr>tx_id = 2, user_id = 7, valor_total = 10, descricao = ''A1'', categoria = ''A'', tipo = SAIDA_CREDITO, data_compra = \<lparr>year = 2023, month = 12, day = 10\<rparr>, num_parcelas = 1, notas = None\<rparr>], installments = [\<lparr>numero_parcela = 1, total_parcelas = 1, valor_parcela = 10, data_vencimento = \<lparr>year = 2024, month = 1, day = 10\<rparr>, status_pagamento = PENDENTE, inst_id = 1, transacao_id = 2\<rparr>], savings_goals = []\<rparr>) 7 1 2024) = 20"
proof -
  have d: "debit_by_category (\<lparr>transactions = [\<lparr>tx_id = 1, user_id = 7, valor_total = 10, descricao = ''Z1'', categoria = ''Z'', tipo = SAIDA_DEBITO, data_compra = \<lparr>year = 2024, month = 1, day = 15\<rparr>, num_parcelas = 1, notas = None\<rparr>, \<lparr>tx_id = 2, user_id = 7, valor_total = 10, descricao = ''A1'', categoria = ''A'', tipo = SAIDA_CREDITO, data_compra = \<lparr>year = 2023, month = 12, day = 10\<rparr>, num_parcelas = 1, notas = None\<rparr>], installments = [\<lparr>numero_parcela = 1, total_parcelas = 1, valor_parcela = 10, data_vencimento = \<lparr>year = 2024, month = 1, day = 10\<rparr>, status_pagamento = PENDENTE, inst_id = 1, transacao_id = 2\<rparr>], savings_goals = []\<rparr>) 7 1 2024 = [(''Z'', 10)]"
    by (simp add: debit_by_category_def)
  have c: "credit_by_category (\<lparr>transactions = [\<lparr>tx_id = 1, user_id = 7, valor_total = 10, descricao = ''Z1'', categoria = ''Z'', tipo = SAIDA_DEBITO, data_compra = \<lparr>year = 2024, month = 1, day = 15\<rparr>, num_parcelas = 1, notas = None\<rparr>, \<lparr>tx_id = 2, user_id = 7, valor_total = 10, descricao = ''A1'', categoria = ''A'', tipo = SAIDA_CREDITO, data_compra = \<lparr>year = 2023, month = 12, day = 10\<rparr>, num_parcelas = 1, notas = None\<rparr>], installments = [\<lparr>numero_parcela = 1, total_parcelas = 1, valor_parcela = 10, data_vencimento = \<lparr>year = 2024, month = 1, day = 10\<rparr>, status_pagamento = PENDENTE, inst_id = 1, transacao_id = 2\<rparr>], savings_goals = []\<rparr>) 7 1 2024 = [(''A'', 10)]"
    by (simp add: credit_by_category_def joined_rows_def)
  show ?thesis
    using breakdown_completeness [of "[(''Z'', 10)]" "\<lparr>transactions = [\<lparr>tx_id = 1, user_id = 7, valor_total = 10, descricao = ''Z1'', categoria = ''Z'', tipo = SAIDA_DEBITO, data_compra = \<lparr>year = 2024, month = 1, day = 15\<rparr>, num_parcelas = 1, notas = None\<rparr>, \<lparr>tx_id = 2, user_id = 7, valor_total = 10, descricao = ''A1'', categoria = ''A'', tipo = SAIDA_CREDITO, data_compra = \<lparr>year = 2023, month = 12, day = 10\<rparr>, num_parcelas = 1, notas = None\<rparr>], installments = [\<lparr>numero_parcela = 1, total_parcelas = 1, valor_parcela = 10, data_vencimento = \<lparr>year = 2024, month = 1, day = 10\<rparr>, status_pagamento = PENDENTE, inst_id = 1, transacao_id = 2\<rparr>], savings_goals = []\<rparr>" 7 1 2024 "[(''A'', 10)]"]
    by (simp add: d c categorias_sum)
qed

lemma add_rows_append: "add_rows d (xs @ ys) = add_rows (add_rows d xs) ys"
  by (induction d xs rule: add_rows.induct) simp_all

lemma sum_filter_out:
  assumes "c \<notin> fst ` set d"
  shows "filter (\<lambda>r. fst r = c) (filter (\<lambda>r. fst r \<notin> fst ` set d) rs) = filter (\<lambda>r. fst r = c) rs"
  using assms by (induction rs) auto

lemma update_present:
  assumes "distinct (map fst d)" "c \<in> fst ` set d"
  shows "AList.update c (dict_get d c 0 + t) d = map (\<lambda>p. if fst p = c then (c, snd p + t) else p) d"
  using assms
proof (induction d)
  case Nil
  then show ?case by simp
next
  case (Cons p d)
  show ?case
  proof (cases "fst p = c")
    case True
    then have "c \<notin> fst ` set d" using Cons.prems(1) by auto
    then have "map (\<lambda>p. if fst p = c then (c, snd p + t) else p) d = d"
      by (intro map_idI) auto
    with True show ?thesis by (cases p) (simp add: dict_get_def)
  next
    case False
    then have "c \<in> fst ` set d" using Cons.prems(2) by auto
    moreover have "distinct (map fst d)" using Cons.prems(1) by simp
    moreover have "dict_get (p # d) c 0 = dict_get d c 0"
      using False by (cases p) (auto simp: dict_get_def)
    ultimately show ?thesis using False Cons.IH by (cases p) auto
  qed
qed

lemma update_absent:
  assumes "c \<notin> fst ` set d"
  shows "AList.update c (dict_get d c 0 + t) d = d @ [(c, t)]"
proof -
  have "map_of d c = None" using assms by (simp add: map_of_eq_None_iff)
  then have g: "dict_get d c 0 = 0" by (simp add: dict_get_def)
  have "AList.update c v d = d @ [(c, v)]" for v
    using assms by (induction d) auto
  then show ?thesis by (simp add: g)
qed

lemma add_rows_general:
  assumes "distinct (map fst d)"
  shows "add_rows d rows =
     map (\<lambda>p. (fst p, snd p + sum_list (map snd (filter (\<lambda>r. fst r = fst p) rows)))) d @
     group_by_sum (filter (\<lambda>r. fst r \<notin> fst ` set d) rows)"
  using assms
proof (induction rows arbitrary: d)
  case Nil
  then show ?case by simp
next
  case (Cons r rows)
  obtain c t where r: "r = (c, t)" by (cases r)
  show ?case
  proof (cases "c \<in> fst ` set d")
    case True
    let ?d = "map (\<lambda>p. if fst p = c then (c, snd p + t) else p) d"
    have u: "AList.update c (dict_get d c 0 + t) d = ?d"
      using Cons.prems True by (rule update_present)
    have k: "map fst ?d = map fst d" by (induction d) auto
    then have ks: "fst ` set ?d = fst ` set d" by (metis set_map)
    have dd: "distinct (map fst ?d)" unfolding k using Cons.prems .
    have p1: "map (\<lambda>p. (fst p, snd p + sum_list (map snd (filter (\<lambda>r. fst r = fst p) rows)))) ?d =
        map (\<lambda>p. (fst p, snd p + sum_list (map snd (filter (\<lambda>r. fst r = fst p) (r # rows))))) d"
      by (induction d) (auto simp: r)
    have p2: "filter (\<lambda>r. fst r \<notin> fst ` set ?d) rows =
        filter (\<lambda>r. fst r \<notin> fst ` set d) (r # rows)"
      unfolding ks using True by (simp add: r)
    have "add_rows d (r # rows) = add_rows ?d rows" by (simp add: r u)
    also have "\<dots> = map (\<lambda>p. (fst p, snd p + sum_list (map snd (filter (\<lambda>r. fst r = fst p) rows)))) ?d @
        group_by_sum (filter (\<lambda>r. fst r \<notin> fst ` set ?d) rows)"
      using dd by (rule Cons.IH)
    also have "\<dots> = map (\<lambda>p. (fst p, snd p + sum_list (map snd (filter (\<lambda>r. fst r = fst p) (r # rows))))) d @
        group_by_sum (filter (\<lambda>r. fst r \<notin> fst ` set d) (r # rows))"
      by (simp only: p1 p2)
    finally show ?thesis .
  next
    case False
    let ?d = "d @ [(c, t)]"
    have u: "AList.update c (dict_get d c 0 + t) d = ?d"
      using False by (rule update_absent)
    have dd: "distinct (map fst ?d)" using Cons.prems False by auto
    have f1: "filter (\<lambda>r. fst r \<notin> fst ` set ?d) rows =
              filter (\<lambda>r. fst r \<noteq> c) (filter (\<lambda>r. fst r \<notin> fst ` set d) rows)"
      by (induction rows) auto
    have f2: "filter (\<lambda>r. fst r = c) (filter (\<lambda>r. fst r \<notin> fst ` set d) rows) =
              filter (\<lambda>r. fst r = c) rows"
      using False by (rule sum_filter_out)
    have q0: "map (\<lambda>p. (fst p, snd p + sum_list (map snd (filter (\<lambda>r. fst r = fst p) rows)))) d =
        map (\<lambda>p. (fst p, snd p + sum_list (map snd (filter (\<lambda>r. fst r = fst p) (r # rows))))) d"
      using False by (intro map_cong) (auto simp: r)
    have q1: "map (\<lambda>p. (fst p, snd p + sum_list (map snd (filter (\<lambda>r. fst r = fst p) rows)))) ?d =
        map (\<lambda>p. (fst p, snd p + sum_list (map snd (filter (\<lambda>r. fst r = fst p) (r # rows))))) d @
        [(c, t + sum_list (map snd (filter (\<lambda>r. fst r = c) rows)))]"
      by (simp add: q0)
    have "group_by_sum (filter (\<lambda>r. fst r \<notin> fst ` set d) (r # rows)) =
        group_by_sum ((c, t) # filter (\<lambda>r. fst r \<notin> fst ` set d) rows)"
      using False by (simp add: r)
    also have "\<dots> = (c, t + sum_list (map snd (filter (\<lambda>r. fst r = c) rows))) #
        group_by_sum (filter (\<lambda>r. fst r \<notin> fst ` set ?d) rows)"
      by (simp only: group_by_sum.simps f1 f2)
    finally have q2: "group_by_sum (filter (\<lambda>r. fst r \<notin> fst ` set d) (r # rows)) =
        (c, t + sum_list (map snd (filter (\<lambda>r. fst r = c) rows))) #
        group_by_sum (filter (\<lambda>r. fst r \<notin> fst ` set ?d) rows)" .
    have "add_rows d (r # rows) = add_rows ?d rows" by (simp add: r u)
    also have "\<dots> = map (\<lambda>p. (fst p, snd p + sum_list (map snd (filter (\<lambda>r. fst r = fst p) rows)))) ?d @
        group_by_sum (filter (\<lambda>r. fst r \<notin> fst ` set ?d) rows)"
      using dd by (rule Cons.IH)
    also have "\<dots> = map (\<lambda>p. (fst p, snd p + sum_list (map snd (filter (\<lambda>r. fst r = fst p) (r # rows))))) d @
        group_by_sum (filter (\<lambda>r. fst r \<notin> fst ` set d) (r # rows))"
      by (simp only: q1 q2 append_assoc append_Cons append_Nil)
    finally show ?thesis .
  qed
qed

lemma add_rows_group_by_sum: "add_rows (add_rows [] dr) cr = group_by_sum (dr @ cr)"
  using add_rows_general [of "[]" "dr @ cr"] by (simp add: add_rows_append)

lemma categorias_eq:
  "categorias (expenses_of_rows dr cr m y) =
     map (\<lambda>x. \<lparr>cs_categoria = fst x, cs_valor_total = snd x\<rparr>)
       (sort_key (\<lambda>x. - snd x) (group_by_sum (dr @ cr)))"
  by (simp add: expenses_of_rows_def Let_def sorted_by_valor_reverse_def add_rows_group_by_sum)

lemma sort_key_neg_nth:
  assumes "i < j" "j < length xs"
  shows "snd (sort_key (\<lambda>x. - snd x) xs ! j) \<le> (snd (sort_key (\<lambda>x. - snd x) xs ! i) :: rat)"
proof -
  let ?s = "sort_key (\<lambda>x. - snd x) xs"
  have "sorted (map (\<lambda>x. - snd x) ?s)" by (rule sorted_sort_key)
  moreover have "i \<le> j" "j < length (map (\<lambda>x. - snd x) ?s)" using assms by simp_all
  ultimately have "map (\<lambda>x. - snd x) ?s ! i \<le> map (\<lambda>x. - snd x) ?s ! j"
    by (rule sorted_nth_mono)
  then show ?thesis using assms by simp
qed

lemma sort_key_neg_ties:
  "filter (\<lambda>x. snd x = a) (sort_key (\<lambda>x. - snd x) xs) = filter (\<lambda>x. snd x = (a::rat)) xs"
  using sort_key_stable [of "\<lambda>x. - snd x" "- a" xs] by simp

text \<open>
  C7. The categories of the breakdown come by decreasing amount. Categories of equal
  amount come in the order in which they enter the dictionary of totals, the order of
  their first row among the debit rows followed by the credit rows; their names play no
  part in the order.
\<close>

theorem breakdown_order:
  "(\<forall>i j. i < j \<and> j < length (categorias (expenses_of_rows dr cr m y)) \<longrightarrow>
      cs_valor_total (categorias (expenses_of_rows dr cr m y) ! j) \<le>
      cs_valor_total (categorias (expenses_of_rows dr cr m y) ! i)) \<and>
   (\<forall>a. map cs_categoria
          (filter (\<lambda>c. cs_valor_total c = a) (categorias (expenses_of_rows dr cr m y))) =
        map fst (filter (\<lambda>x. snd x = a) (group_by_sum (dr @ cr))))"
proof (intro conjI allI impI)
  fix i j
  assume a: "i < j \<and> j < length (categorias (expenses_of_rows dr cr m y))"
  then have "i < j" "j < length (group_by_sum (dr @ cr))"
    by (simp_all add: categorias_eq)
  then have "snd (sort_key (\<lambda>x. - snd x) (group_by_sum (dr @ cr)) ! j) \<le>
        snd (sort_key (\<lambda>x. - snd x) (group_by_sum (dr @ cr)) ! i)"
    by (rule sort_key_neg_nth)
  then show "cs_valor_total (categorias (expenses_of_rows dr cr m y) ! j) \<le>
      cs_valor_total (categorias (expenses_of_rows dr cr m y) ! i)"
    using a by (simp add: categorias_eq)
next
  fix a
  show "map cs_categoria
          (filter (\<lambda>c. cs_valor_total c = a) (categorias (expenses_of_rows dr cr m y))) =
        map fst (filter (\<lambda>x. snd x = a) (group_by_sum (dr @ cr)))"
    by (simp add: categorias_eq filter_map comp_def sort_key_neg_ties)
qed

theorem breakdown_order_witness:
  "((0::nat) < 1 \<and> 1 < length (categorias (expenses_of_rows [(''Z'', 10)] [(''A'', 10)] 1 2024))) \<and>
   cs_valor_total (categorias (expenses_of_rows [(''Z'', 10)] [(''A'', 10)] 1 2024) ! 1) \<le>
   cs_valor_total (categorias (expenses_of_rows [(''Z'', 10)] [(''A'', 10)] 1 2024) ! 0) \<and>
   map cs_categoria (filter (\<lambda>c. cs_valor_total c = 10)
     (categorias (expenses_of_rows [(''Z'', 10)] [(''A'', 10)] 1 2024))) = [''Z'', ''A'']"
proof -
  have l: "length (categorias (expenses_of_rows [(''Z'', 10)] [(''A'', 10)] 1 2024)) = 2"
    by (simp add: categorias_eq)
  show ?thesis
    using breakdown_order [of "[(''Z'', 10)]" "[(''A'', 10)]" 1 2024] l
    by simp
qed

text \<open>
  The same month with a debit expense of 10.00 in category Z and an installment of
  10.00 of a credit purchase in category A: the two categories tie, and Z comes before
  A.
\<close>

theorem name_tie_break_counterexample:
  "map cs_categoria (categorias (get_expenses_by_category (\<lparr>transactions = [\<lparr>tx_id = 1, user_id = 7, valor_total = 10, descricao = ''Z1'', categoria = ''Z'', tipo = SAIDA_DEBITO, data_compra = \<lparr>year = 2024, month = 1, day = 15\<rparr>, num_parcelas = 1, notas = None\<rparr>, \<lparr>tx_id = 2, user_id = 7, valor_total = 10, descricao = ''A1'', categoria = ''A'', tipo = SAIDA_CREDITO, data_compra = \<lparr>year = 2023, month = 12, day = 10\<rparr>, num_parcelas = 1, notas = None\<rparr>], installments = [\<lparr>numero_parcela = 1, total_parcelas = 1, valor_parcela = 10, data_vencimento = \<lparr>year = 2024, month = 1, day = 10\<rparr>, status_pagamento = PENDENTE, inst_id = 1, transacao_id = 2\<rparr>], savings_goals = []\<rparr>) 7 1 2024)) = [''Z'', ''A''] \<and>
   map cs_valor_total (categorias (get_expenses_by_category (\<lparr>transactions = [\<lparr>tx_id = 1, user_id = 7, valor_total = 10, descricao = ''Z1'', categoria = ''Z'', tipo = SAIDA_DEBITO, data_compra = \<lparr>year = 2024, month = 1, day = 15\<rparr>, num_parcelas = 1, notas = None\<rparr>, \<lparr>tx_id = 2, user_id = 7, valor_total = 10, descricao = ''A1'', categoria = ''A'', tipo = SAIDA_CREDITO, data_compra = \<lparr>year = 2023, month = 12, day = 10\<rparr>, num_parcelas = 1, notas = None\<rparr>], installments = [\<lparr>numero_parcela = 1, total_parcelas = 1, valor_parcela = 10, data_vencimento = \<lparr>year = 2024, month = 1, day = 10\<rparr>, status_pagamento = PENDENTE, inst_id = 1, transacao_id = 2\<rparr>], savings_goals = []\<rparr>) 7 1 2024)) = [10, 10] \<and>
   ''A'' < ''Z''"
  by (simp add: get_expenses_by_category_def expenses_of_rows_def Let_def
      debit_by_category_def credit_by_category_def joined_rows_def
      sorted_by_valor_reverse_def dict_get_def)

section \<open>Properties of the computed field\<close>































end
